theory Spec2Isabelle
  imports Complex_Main
begin

section \<open>The retirement projection engine (src/retirement.py)\<close>

text \<open>
  The engine is the single function \<open>compute_projection\<close>. It builds a pandas
  DataFrame column by column (lines 35 to 70), sums one column (line 72) and then
  computes the savings figures with plain Python scalars (lines 75 to 94).

  Numbers: Python's \<open>int\<close> is \<open>int\<close>. Python's \<open>float\<close> is modelled by \<open>real\<close>,
  that is, by exact arithmetic: rounding, overflow and the non-finite values
  (\<open>inf\<close>, \<open>nan\<close>) that numpy produces where it divides by zero are outside this
  model. Where numpy divides by zero the model has HOL's total division
  (\<open>x / 0 = 0\<close>). Where plain Python would raise \<open>ZeroDivisionError\<close> (a float
  divided by \<open>0.0\<close>, or \<open>0.0\<close> raised to a negative power) the model returns the
  error as a value.
\<close>

subsection \<open>Python and pandas operations used by the engine\<close>

datatype error = ZeroDivisionError

text \<open>\<open>list(range(a, b))\<close>: the integers from \<open>a\<close> up to, not including, \<open>b\<close>.\<close>

definition py_range :: "int \<Rightarrow> int \<Rightarrow> int list" where
  "py_range a b = [a..b - 1]"

text \<open>
  A float raised to an integer power, as numpy computes it elementwise: a negative
  exponent gives the reciprocal of the positive power.
\<close>

definition py_pow :: "real \<Rightarrow> int \<Rightarrow> real" where
  "py_pow x k = (if 0 \<le> k then x ^ nat k else 1 / x ^ nat (- k))"

text \<open>
  The same power on plain Python floats (lines 80 and 91): \<open>0.0 ** k\<close> with
  \<open>k < 0\<close> raises.
\<close>

definition float_pow :: "real \<Rightarrow> int \<Rightarrow> error + real" where
  "float_pow x k = (if x = 0 \<and> k < 0 then Inl ZeroDivisionError else Inr (py_pow x k))"

text \<open>Division of plain Python floats (line 91): a zero divisor raises.\<close>

definition float_truediv :: "real \<Rightarrow> real \<Rightarrow> error + real" where
  "float_truediv x y = (if y = 0 then Inl ZeroDivisionError else Inr (x / y))"

text \<open>
  \<open>df.loc[mask, col]\<close> read: the entries of the column on the rows where the mask
  holds, in row order.
\<close>

definition loc_select :: "bool list \<Rightarrow> 'a list \<Rightarrow> 'a list" where
  "loc_select flags xs = map snd (filter fst (zip flags xs))"

text \<open>
  \<open>df.loc[mask, col] = values\<close>: the rows where the mask holds take the values, in
  row order; the other rows keep what the column had. (The frame has the default
  row labels \<open>0, 1, 2, ...\<close>, so aligning by label is aligning by position.)
\<close>

fun loc_assign :: "bool list \<Rightarrow> 'a list \<Rightarrow> 'a list \<Rightarrow> 'a list" where
  "loc_assign (True # ms) (c # cs) (v # vs) = v # loc_assign ms cs vs"
| "loc_assign (False # ms) (c # cs) vs = c # loc_assign ms cs vs"
| "loc_assign ms cs vs = cs"

text \<open>Elementwise arithmetic of two columns of one frame, and \<open>clip(lower=...)\<close>.\<close>

definition series_add :: "real list \<Rightarrow> real list \<Rightarrow> real list" where
  "series_add xs ys = map (\<lambda>(x, y). x + y) (zip xs ys)"

definition series_sub :: "real list \<Rightarrow> real list \<Rightarrow> real list" where
  "series_sub xs ys = map (\<lambda>(x, y). x - y) (zip xs ys)"

definition series_div :: "real list \<Rightarrow> real list \<Rightarrow> real list" where
  "series_div xs ys = map (\<lambda>(x, y). x / y) (zip xs ys)"

definition clip_lower :: "real \<Rightarrow> real list \<Rightarrow> real list" where
  "clip_lower lo xs = map (\<lambda>x. max lo x) xs"

subsection \<open>Data model\<close>

record projection_input =
  current_year :: int
  current_age :: int
  current_savings :: real
  retirement_start_year :: int
  retirement_years :: int
  base_income_need :: real
  inflation :: real
  cola :: real
  investment_return :: real
  p1_start_value :: real
  p1_start_age :: int
  p2_start_value :: real
  p2_start_age :: int
  ss_start_value :: real
  ss_start_age :: int

text \<open>The DataFrame: one list per named column, all over the same rows.\<close>

record data_frame =
  Year :: "int list"
  Ret_Year_Index :: "int list"
  Age :: "int list"
  Target_Income :: "real list"
  Pension_1 :: "real list"
  Pension_2 :: "real list"
  Social_Security :: "real list"
  Total_Fixed_Income :: "real list"
  Shortfall :: "real list"
  PV_of_Shortfall :: "real list"

text \<open>The tuple that \<open>compute_projection\<close> returns (lines 96 to 104).\<close>

record projection_result =
  df :: data_frame
  total_needed_at_retirement :: real
  fv_current_savings :: real
  remaining_needed :: real
  annual_savings_needed :: real
  years_to_retirement :: int
  retirement_age :: int

subsection \<open>The engine\<close>

text \<open>
  One fixed-income column (lines 51 to 53, 56 to 58, 61 to 63): the column is set
  to \<open>0.0\<close> on every row, the mask marks the rows whose age has reached the start
  age, and those rows are assigned \<open>start_value * (1 + cola) ** (Age - start_age)\<close>,
  computed from the ages of the masked rows.
\<close>

definition income_stream :: "real \<Rightarrow> int \<Rightarrow> real \<Rightarrow> int list \<Rightarrow> real list" where
  "income_stream start_value start_age cola_rate ages =
     (let zeros = map (\<lambda>_. 0) ages;
          flags = map (\<lambda>a. start_age \<le> a) ages
      in loc_assign flags zeros
           (map (\<lambda>a. start_value * py_pow (1 + cola_rate) (a - start_age))
                (loc_select flags ages)))"

text \<open>Lines 35 to 70: the frame.\<close>

definition projection_frame :: "projection_input \<Rightarrow> data_frame" where
  "projection_frame inp =
     (let retirement_end_year = retirement_start_year inp + retirement_years inp - 1;
          retirement_years_range = py_range (retirement_start_year inp) (retirement_end_year + 1);
          ret_index = py_range 0 (int (length retirement_years_range));
          ytr = retirement_start_year inp - current_year inp;
          age = map (\<lambda>y. current_age inp + (y - current_year inp)) retirement_years_range;
          target = map (\<lambda>k. base_income_need inp * py_pow (1 + inflation inp) (ytr + k)) ret_index;
          pension_1 = income_stream (p1_start_value inp) (p1_start_age inp) (cola inp) age;
          pension_2 = income_stream (p2_start_value inp) (p2_start_age inp) (cola inp) age;
          social = income_stream (ss_start_value inp) (ss_start_age inp) (cola inp) age;
          total_fixed = series_add (series_add pension_1 pension_2) social;
          shortfall = clip_lower 0 (series_sub target total_fixed);
          pv = series_div shortfall (map (\<lambda>k. py_pow (1 + investment_return inp) k) ret_index)
      in \<lparr>Year = retirement_years_range, Ret_Year_Index = ret_index, Age = age,
          Target_Income = target, Pension_1 = pension_1, Pension_2 = pension_2,
          Social_Security = social, Total_Fixed_Income = total_fixed,
          Shortfall = shortfall, PV_of_Shortfall = pv\<rparr>)"

text \<open>
  Lines 75 to 92: the savings calculation, returning \<open>fv_current_savings\<close>,
  \<open>remaining_needed\<close> and \<open>annual_savings_needed\<close>. The powers on lines 80 and 91
  and the division by \<open>r\<close> on line 91 are plain Python float operations, which can
  raise; \<open>remaining_needed\<close>, when it is not \<open>0.0\<close>, is taken to be the numpy
  scalar that came from \<open>Series.sum\<close> of a float column (as it is for every frame
  with a row), whose divisions (lines 89 and 92) do not raise. The divisor on
  line 89 is positive on its branch; the one on line 92 is zero only for
  \<open>investment_return = - 2\<close> with an even number of years, where numpy gives a
  non-finite value.
\<close>

definition savings_calculation ::
  "int \<Rightarrow> real \<Rightarrow> real \<Rightarrow> real \<Rightarrow> error + (real \<times> real \<times> real)" where
  "savings_calculation ytr savings rate total_needed =
     (if ytr \<le> 0 then
        (let fv = savings; remaining = max 0 (total_needed - fv)
         in Inr (fv, remaining, 0))
      else
        (case float_pow (1 + rate) ytr of
           Inl e \<Rightarrow> Inl e
         | Inr growth \<Rightarrow>
             (let fv = savings * growth; remaining = max 0 (total_needed - fv)
              in if remaining = 0 then Inr (fv, remaining, 0)
                 else
                   (let r = rate; n = ytr
                    in if r = 0 then Inr (fv, remaining, remaining / real_of_int n)
                       else
                         (case float_pow (1 + r) n of
                            Inl e \<Rightarrow> Inl e
                          | Inr p \<Rightarrow>
                              (case float_truediv (p - 1) r of
                                 Inl e \<Rightarrow> Inl e
                               | Inr annuity_factor \<Rightarrow>
                                   Inr (fv, remaining, remaining / annuity_factor)))))))"

text \<open>The whole function, lines 35 to 104.\<close>

definition compute_projection :: "projection_input \<Rightarrow> error + projection_result" where
  "compute_projection inp =
     (let frame = projection_frame inp;
          ytr = retirement_start_year inp - current_year inp;
          total_needed = sum_list (PV_of_Shortfall frame)
      in case savings_calculation ytr (current_savings inp) (investment_return inp) total_needed of
           Inl e \<Rightarrow> Inl e
         | Inr (fv, remaining, annual) \<Rightarrow>
             Inr \<lparr>df = frame, total_needed_at_retirement = total_needed,
                  fv_current_savings = fv, remaining_needed = remaining,
                  annual_savings_needed = annual, years_to_retirement = ytr,
                  retirement_age = current_age inp + ytr\<rparr>)"

subsection \<open>Inputs used in the worked examples\<close>


text \<open>
  A three-year retirement with rates of 100 percent, so that every power is a power
  of two: the start year, the current age, the investment return and the current
  savings vary from example to example.
\<close>

definition scenario :: "int \<Rightarrow> int \<Rightarrow> real \<Rightarrow> real \<Rightarrow> projection_input" where
  "scenario start_year age rate savings =
     \<lparr>current_year = 2025, current_age = age, current_savings = savings,
      retirement_start_year = start_year, retirement_years = 3,
      base_income_need = 100, inflation = 1, cola = 1, investment_return = rate,
      p1_start_value = 10, p1_start_age = 61,
      p2_start_value = 20, p2_start_age = 62,
      ss_start_value = 2000, ss_start_age = 63\<rparr>"

text \<open>The frames and results that the engine computes on these inputs.\<close>

definition frame_growing :: data_frame where
  "frame_growing =
     \<lparr>Year = [2027, 2028, 2029], Ret_Year_Index = [0, 1, 2], Age = [61, 62, 63],
      Target_Income = [400, 800, 1600], Pension_1 = [10, 20, 40], Pension_2 = [0, 20, 40],
      Social_Security = [0, 0, 2000], Total_Fixed_Income = [10, 40, 2080],
      Shortfall = [390, 760, 0], PV_of_Shortfall = [390, 380, 0]\<rparr>"

definition result_growing :: projection_result where
  "result_growing =
     \<lparr>df = frame_growing, total_needed_at_retirement = 770, fv_current_savings = 200,
      remaining_needed = 570, annual_savings_needed = 190, years_to_retirement = 2,
      retirement_age = 61\<rparr>"



definition result_underway :: projection_result where
  "result_underway =
     \<lparr>df = \<lparr>Year = [2024, 2025, 2026], Ret_Year_Index = [0, 1, 2], Age = [61, 62, 63],
            Target_Income = [50, 100, 200], Pension_1 = [10, 20, 40],
            Pension_2 = [0, 20, 40], Social_Security = [0, 0, 2000],
            Total_Fixed_Income = [10, 40, 2080], Shortfall = [40, 60, 0],
            PV_of_Shortfall = [40, 30, 0]\<rparr>,
      total_needed_at_retirement = 70, fv_current_savings = 50,
      remaining_needed = 20, annual_savings_needed = 0, years_to_retirement = - 1,
      retirement_age = 61\<rparr>"




definition result_no_need :: projection_result where
  "result_no_need =
     \<lparr>df = frame_growing\<lparr>Target_Income := [0, 0, 0], Shortfall := [0, 0, 0],
                           PV_of_Shortfall := [0, 0, 0]\<rparr>,
      total_needed_at_retirement = 0, fv_current_savings = 200,
      remaining_needed = 0, annual_savings_needed = 0, years_to_retirement = 2,
      retirement_age = 61\<rparr>"

section \<open>Properties of the operations\<close>

lemma length_py_range: "length (py_range a b) = nat (b - a)"
  by (simp add: py_range_def)

lemma nth_py_range: "i < nat (b - a) \<Longrightarrow> py_range a b ! i = a + int i"
  by (simp add: py_range_def)

lemma py_pow_powi: "py_pow x k = x powi k"
  by (simp add: py_pow_def power_int_def power_one_over inverse_eq_divide)

lemma py_pow_nat: "0 \<le> k \<Longrightarrow> py_pow x k = x ^ nat k"
  by (simp add: py_pow_def)

lemma py_pow_int: "py_pow x (int n) = x ^ n"
  by (simp add: py_pow_def)

lemma py_pow_add_1: "x \<noteq> 0 \<Longrightarrow> py_pow x (k + 1) = py_pow x k * x"
  by (simp add: py_pow_powi power_int_add_1)

lemma py_pow_strict_increasing: "1 < x \<Longrightarrow> py_pow x k < py_pow x (k + 1)"
  by (simp add: py_pow_powi power_int_strict_increasing)

lemma length_loc_assign: "length (loc_assign ms cs vs) = length cs"
  by (induction ms cs vs rule: loc_assign.induct) simp_all

text \<open>
  Reading the masked rows, mapping a function over them and assigning the values
  back is a row-by-row conditional.
\<close>

lemma loc_assign_select_nth:
  "length ms = length xs \<Longrightarrow> length cs = length xs \<Longrightarrow> i < length xs \<Longrightarrow>
     loc_assign ms cs (map f (loc_select ms xs)) ! i = (if ms ! i then f (xs ! i) else cs ! i)"
proof (induction ms arbitrary: xs cs i)
  case Nil
  then show ?case by simp
next
  case (Cons m ms)
  then obtain x xs' where xs: "xs = x # xs'" by (cases xs) auto
  with Cons.prems obtain c cs' where cs: "cs = c # cs'" by (cases cs) auto
  have len: "length ms = length xs'" "length cs' = length xs'"
    using Cons.prems xs cs by auto
  show ?case
  proof (cases i)
    case 0
    then show ?thesis using xs cs by (cases m) (simp_all add: loc_select_def)
  next
    case (Suc j)
    then have "j < length xs'" using Cons.prems xs by simp
    from Cons.IH[OF len this] show ?thesis
      using xs cs Suc by (cases m) (simp_all add: loc_select_def)
  qed
qed

lemma length_income_stream: "length (income_stream v s c ages) = length ages"
  by (simp add: income_stream_def Let_def length_loc_assign)

lemma nth_income_stream:
  "i < length ages \<Longrightarrow>
     income_stream v s c ages ! i =
       (if s \<le> ages ! i then v * py_pow (1 + c) (ages ! i - s) else 0)"
  by (simp add: income_stream_def Let_def loc_assign_select_nth)



section \<open>The columns of the frame, row by row\<close>

lemma frame_lengths:
  "length (Year (projection_frame inp)) = nat (retirement_years inp)"
  "length (Ret_Year_Index (projection_frame inp)) = nat (retirement_years inp)"
  "length (Age (projection_frame inp)) = nat (retirement_years inp)"
  "length (Target_Income (projection_frame inp)) = nat (retirement_years inp)"
  "length (Pension_1 (projection_frame inp)) = nat (retirement_years inp)"
  "length (Pension_2 (projection_frame inp)) = nat (retirement_years inp)"
  "length (Social_Security (projection_frame inp)) = nat (retirement_years inp)"
  "length (Total_Fixed_Income (projection_frame inp)) = nat (retirement_years inp)"
  "length (Shortfall (projection_frame inp)) = nat (retirement_years inp)"
  "length (PV_of_Shortfall (projection_frame inp)) = nat (retirement_years inp)"
  by (simp_all add: projection_frame_def Let_def length_py_range length_income_stream
        series_add_def series_sub_def series_div_def clip_lower_def)


lemma frame_Index_nth:
  "i < nat (retirement_years inp) \<Longrightarrow> Ret_Year_Index (projection_frame inp) ! i = int i"
  by (simp add: projection_frame_def Let_def nth_py_range length_py_range)



lemma frame_Target_nth:
  "i < nat (retirement_years inp) \<Longrightarrow>
     Target_Income (projection_frame inp) ! i =
       base_income_need inp * py_pow (1 + inflation inp)
         (retirement_start_year inp - current_year inp
            + Ret_Year_Index (projection_frame inp) ! i)"
  by (simp add: projection_frame_def Let_def length_py_range)

lemma frame_Pension_1_nth:
  "i < nat (retirement_years inp) \<Longrightarrow>
     Pension_1 (projection_frame inp) ! i =
       (if p1_start_age inp \<le> Age (projection_frame inp) ! i
        then p1_start_value inp
               * py_pow (1 + cola inp) (Age (projection_frame inp) ! i - p1_start_age inp)
        else 0)"
  by (simp add: projection_frame_def Let_def length_py_range nth_income_stream)

lemma frame_Pension_2_nth:
  "i < nat (retirement_years inp) \<Longrightarrow>
     Pension_2 (projection_frame inp) ! i =
       (if p2_start_age inp \<le> Age (projection_frame inp) ! i
        then p2_start_value inp
               * py_pow (1 + cola inp) (Age (projection_frame inp) ! i - p2_start_age inp)
        else 0)"
  by (simp add: projection_frame_def Let_def length_py_range nth_income_stream)

lemma frame_Social_Security_nth:
  "i < nat (retirement_years inp) \<Longrightarrow>
     Social_Security (projection_frame inp) ! i =
       (if ss_start_age inp \<le> Age (projection_frame inp) ! i
        then ss_start_value inp
               * py_pow (1 + cola inp) (Age (projection_frame inp) ! i - ss_start_age inp)
        else 0)"
  by (simp add: projection_frame_def Let_def length_py_range nth_income_stream)

lemma frame_Total_nth:
  "i < nat (retirement_years inp) \<Longrightarrow>
     Total_Fixed_Income (projection_frame inp) ! i =
       Pension_1 (projection_frame inp) ! i + Pension_2 (projection_frame inp) ! i
         + Social_Security (projection_frame inp) ! i"
  by (simp add: projection_frame_def Let_def length_py_range length_income_stream
        series_add_def)

lemma frame_Shortfall_nth:
  "i < nat (retirement_years inp) \<Longrightarrow>
     Shortfall (projection_frame inp) ! i =
       max 0 (Target_Income (projection_frame inp) ! i
                - Total_Fixed_Income (projection_frame inp) ! i)"
  by (simp add: projection_frame_def Let_def length_py_range length_income_stream
        series_add_def series_sub_def clip_lower_def)

lemma frame_PV_nth:
  "i < nat (retirement_years inp) \<Longrightarrow>
     PV_of_Shortfall (projection_frame inp) ! i =
       Shortfall (projection_frame inp) ! i
         / py_pow (1 + investment_return inp) (Ret_Year_Index (projection_frame inp) ! i)"
  by (simp add: projection_frame_def Let_def length_py_range length_income_stream
        series_add_def series_sub_def series_div_def clip_lower_def)

section \<open>The savings calculation and the returned tuple\<close>

text \<open>
  The guards of the source keep the plain Python operations away from their
  failing inputs: the powers have a positive exponent and the division by \<open>r\<close>
  happens only where \<open>r\<close> is not zero. So the calculation always returns.
\<close>

lemma savings_calculation_eq:
  "savings_calculation ytr s rate t =
     (let fv = (if ytr \<le> 0 then s else s * (1 + rate) ^ nat ytr);
          remaining = max 0 (t - fv)
      in Inr (fv, remaining,
           if ytr \<le> 0 \<or> remaining = 0 then 0
           else if rate = 0 then remaining / real_of_int ytr
           else remaining / (((1 + rate) ^ nat ytr - 1) / rate)))"
  by (simp add: savings_calculation_def float_pow_def float_truediv_def py_pow_def Let_def)

text \<open>
  For a return above minus 100 percent and not zero, the annuity factor of line 91
  is positive, so the division on line 92 is by a non-zero number.
\<close>

lemma annuity_factor_positive:
  fixes r :: real
  assumes "0 < n" and "- 1 < r" and "r \<noteq> 0"
  shows "0 < ((1 + r) ^ n - 1) / r"
proof (cases "0 < r")
  case True
  then have "1 < (1 + r) ^ n" using assms(1) by (simp add: one_less_power)
  with True show ?thesis by simp
next
  case False
  with assms have neg: "r < 0" and pos: "0 \<le> 1 + r" and lt: "1 + r < 1" by simp_all
  have "(1 + r) ^ n < 1"
    using pos lt assms(1) by (simp add: power_less_one_iff)
  with neg show ?thesis by (simp add: divide_neg_neg)
qed


lemma compute_projection_fields:
  assumes "compute_projection inp = Inr r"
  shows "df r = projection_frame inp"
    and "total_needed_at_retirement r = sum_list (PV_of_Shortfall (projection_frame inp))"
    and "years_to_retirement r = retirement_start_year inp - current_year inp"
    and "retirement_age r = current_age inp + years_to_retirement r"
    and "fv_current_savings r =
           (if years_to_retirement r \<le> 0 then current_savings inp
            else current_savings inp
                   * (1 + investment_return inp) ^ nat (years_to_retirement r))"
    and "remaining_needed r = max 0 (total_needed_at_retirement r - fv_current_savings r)"
    and "annual_savings_needed r =
           (if years_to_retirement r \<le> 0 \<or> remaining_needed r = 0 then 0
            else if investment_return inp = 0
              then remaining_needed r / real_of_int (years_to_retirement r)
            else remaining_needed r /
                   (((1 + investment_return inp) ^ nat (years_to_retirement r) - 1)
                      / investment_return inp))"
  using assms
  by (auto simp: compute_projection_def savings_calculation_eq Let_def)

section \<open>Worked examples\<close>

lemmas frame_eval =
  projection_frame_def Let_def py_range_def py_pow_def income_stream_def loc_select_def
  series_add_def series_sub_def series_div_def clip_lower_def upto_rec1

lemma frame_scenario_growing:
  "projection_frame (scenario 2027 59 1 v) = frame_growing"
  by (simp add: frame_eval scenario_def frame_growing_def)

lemma run_growing: "compute_projection (scenario 2027 59 1 50) = Inr result_growing"
  by (simp add: compute_projection_def frame_scenario_growing savings_calculation_eq Let_def)
    (simp add: scenario_def frame_growing_def result_growing_def)



lemma run_underway: "compute_projection (scenario 2024 62 1 50) = Inr result_underway"
  by (simp add: compute_projection_def savings_calculation_eq Let_def)
    (simp add: frame_eval scenario_def result_underway_def)



lemma run_no_need:
  "compute_projection ((scenario 2027 59 1 50)\<lparr>base_income_need := 0\<rparr>) = Inr result_no_need"
  by (simp add: compute_projection_def savings_calculation_eq Let_def)
    (simp add: frame_eval scenario_def frame_growing_def result_no_need_def)

section \<open>The claims\<close>

subsection \<open>C1: inputs with fewer than one retirement year\<close>




subsection \<open>C2: the rows and the year, index and age columns\<close>



subsection \<open>C3: target income\<close>

text \<open>
  C3. On every row of every result, \<open>Target_Income\<close> is
  \<open>base_income_need * (1 + inflation) ** (years_to_retirement + Ret_Year_Index)\<close>
  with \<open>years_to_retirement = retirement_start_year - current_year\<close> and
  \<open>Ret_Year_Index\<close> the row number. For a retirement that has not started the
  exponent is the natural number \<open>years_to_retirement + i\<close>; and inflation keeps
  compounding during retirement: each row is the row before times
  \<open>1 + inflation\<close> (where \<open>1 + inflation\<close> is not zero).
\<close>

theorem target_income_compounds:
  assumes "compute_projection inp = Inr r" and "i < length (Target_Income (df r))"
  shows "years_to_retirement r = retirement_start_year inp - current_year inp
     \<and> Ret_Year_Index (df r) ! i = int i
     \<and> Target_Income (df r) ! i =
           base_income_need inp
             * py_pow (1 + inflation inp) (years_to_retirement r + Ret_Year_Index (df r) ! i)
     \<and> (0 \<le> years_to_retirement r \<longrightarrow>
           Target_Income (df r) ! i =
             base_income_need inp * (1 + inflation inp) ^ (nat (years_to_retirement r) + i))
     \<and> (Suc i < length (Target_Income (df r)) \<and> 1 + inflation inp \<noteq> 0 \<longrightarrow>
           Target_Income (df r) ! Suc i = Target_Income (df r) ! i * (1 + inflation inp))"
proof -
  have d: "df r = projection_frame inp"
    and y: "years_to_retirement r = retirement_start_year inp - current_year inp"
    using compute_projection_fields(1,3)[OF assms(1)] by simp_all
  have i: "i < nat (retirement_years inp)"
    using assms(2) by (simp add: d frame_lengths)
  have idx: "Ret_Year_Index (df r) ! i = int i"
    using i by (simp add: d frame_Index_nth)
  have t: "Target_Income (df r) ! i =
           base_income_need inp
             * py_pow (1 + inflation inp) (years_to_retirement r + Ret_Year_Index (df r) ! i)"
    using i by (simp add: d y frame_Target_nth)
  have nonneg: "0 \<le> years_to_retirement r \<longrightarrow>
           Target_Income (df r) ! i =
             base_income_need inp * (1 + inflation inp) ^ (nat (years_to_retirement r) + i)"
    by (simp add: t idx py_pow_nat nat_add_distrib)
  have step: "Suc i < length (Target_Income (df r)) \<and> 1 + inflation inp \<noteq> 0 \<longrightarrow>
           Target_Income (df r) ! Suc i = Target_Income (df r) ! i * (1 + inflation inp)"
  proof
    assume a: "Suc i < length (Target_Income (df r)) \<and> 1 + inflation inp \<noteq> 0"
    then have s: "Suc i < nat (retirement_years inp)"
      by (simp add: d frame_lengths)
    have "Target_Income (df r) ! Suc i =
            base_income_need inp * py_pow (1 + inflation inp) (years_to_retirement r + int i + 1)"
      using s by (simp add: d y frame_Target_nth frame_Index_nth algebra_simps)
    also have "\<dots> = base_income_need inp
                        * (py_pow (1 + inflation inp) (years_to_retirement r + int i)
                             * (1 + inflation inp))"
      using a py_pow_add_1[of "1 + inflation inp" "years_to_retirement r + int i"] by simp
    finally show "Target_Income (df r) ! Suc i = Target_Income (df r) ! i * (1 + inflation inp)"
      by (simp add: t idx)
  qed
  from y idx t nonneg step show ?thesis by blast
qed

theorem target_income_compounds_witness:
  "compute_projection (scenario 2024 62 1 50) = Inr result_underway
   \<and> 1 < length (Target_Income (df result_underway))
   \<and> years_to_retirement result_underway = 2024 - 2025
   \<and> Target_Income (df result_underway) ! 1 = 100 * py_pow (1 + 1) (- 1 + 1)
   \<and> Target_Income (df result_underway) ! Suc 1
       = Target_Income (df result_underway) ! 1 * (1 + 1)"
proof -
  have len: "1 < length (Target_Income (df result_underway))"
    by (simp add: result_underway_def)
  have nz: "Suc 1 < length (Target_Income (df result_underway))
              \<and> 1 + inflation (scenario 2024 62 1 50) \<noteq> 0"
    by (simp add: result_underway_def scenario_def)
  show ?thesis
    using target_income_compounds[OF run_underway len] nz len run_underway
    by (simp add: scenario_def)
qed

subsection \<open>C4: the fixed-income streams\<close>

text \<open>
  C4. On every row of every result, each of \<open>Pension_1\<close>, \<open>Pension_2\<close> and
  \<open>Social_Security\<close> is \<open>0\<close> when the row's \<open>Age\<close> is below the stream's start age
  and \<open>start_value * (1 + cola) ^ (Age - start_age)\<close> when it is not; and
  \<open>Total_Fixed_Income\<close> is exactly the sum of the three.
\<close>

theorem fixed_income_streams:
  assumes "compute_projection inp = Inr r" and "i < length (Age (df r))"
  shows "Pension_1 (df r) ! i =
           (if Age (df r) ! i < p1_start_age inp then 0
            else p1_start_value inp
                   * (1 + cola inp) ^ nat (Age (df r) ! i - p1_start_age inp))
     \<and> Pension_2 (df r) ! i =
           (if Age (df r) ! i < p2_start_age inp then 0
            else p2_start_value inp
                   * (1 + cola inp) ^ nat (Age (df r) ! i - p2_start_age inp))
     \<and> Social_Security (df r) ! i =
           (if Age (df r) ! i < ss_start_age inp then 0
            else ss_start_value inp
                   * (1 + cola inp) ^ nat (Age (df r) ! i - ss_start_age inp))
     \<and> Total_Fixed_Income (df r) ! i =
           Pension_1 (df r) ! i + Pension_2 (df r) ! i + Social_Security (df r) ! i"
proof -
  have d: "df r = projection_frame inp"
    by (rule compute_projection_fields(1)[OF assms(1)])
  have i: "i < nat (retirement_years inp)"
    using assms(2) by (simp add: d frame_lengths)
  have p1: "Pension_1 (df r) ! i =
           (if Age (df r) ! i < p1_start_age inp then 0
            else p1_start_value inp
                   * (1 + cola inp) ^ nat (Age (df r) ! i - p1_start_age inp))"
    using i by (simp add: d frame_Pension_1_nth py_pow_nat)
  have p2: "Pension_2 (df r) ! i =
           (if Age (df r) ! i < p2_start_age inp then 0
            else p2_start_value inp
                   * (1 + cola inp) ^ nat (Age (df r) ! i - p2_start_age inp))"
    using i by (simp add: d frame_Pension_2_nth py_pow_nat)
  have ss: "Social_Security (df r) ! i =
           (if Age (df r) ! i < ss_start_age inp then 0
            else ss_start_value inp
                   * (1 + cola inp) ^ nat (Age (df r) ! i - ss_start_age inp))"
    using i by (simp add: d frame_Social_Security_nth py_pow_nat)
  have tot: "Total_Fixed_Income (df r) ! i =
           Pension_1 (df r) ! i + Pension_2 (df r) ! i + Social_Security (df r) ! i"
    using i by (simp add: d frame_Total_nth)
  from p1 p2 ss tot show ?thesis by blast
qed

theorem fixed_income_streams_witness:
  "compute_projection (scenario 2027 59 1 50) = Inr result_growing
   \<and> 1 < length (Age (df result_growing))
   \<and> Age (df result_growing) ! 1 = 62
   \<and> Pension_1 (df result_growing) ! 1 = 10 * (1 + 1) ^ nat (62 - 61)
   \<and> Pension_2 (df result_growing) ! 1 = 20 * (1 + 1) ^ nat (62 - 62)
   \<and> Social_Security (df result_growing) ! 1 = 0
   \<and> Total_Fixed_Income (df result_growing) ! 1 = 20 + 20 + 0"
proof -
  have len: "1 < length (Age (df result_growing))"
    by (simp add: result_growing_def frame_growing_def)
  have age: "Age (df result_growing) ! Suc 0 = 62"
    by (simp add: result_growing_def frame_growing_def)
  show ?thesis
    using fixed_income_streams[OF run_growing len] len run_growing
    by (simp add: age scenario_def)
qed

subsection \<open>C5: the shortfall\<close>

text \<open>
  C5. On every row of every result, \<open>Shortfall\<close> is
  \<open>max 0 (Target_Income - Total_Fixed_Income)\<close> of that same row: it is never
  negative, and it is never less than the row's own gap, so a surplus of fixed income
  in another year takes nothing off it.
\<close>

theorem shortfall_floor:
  assumes "compute_projection inp = Inr r" and "i < length (Shortfall (df r))"
  shows "Shortfall (df r) ! i
           = max 0 (Target_Income (df r) ! i - Total_Fixed_Income (df r) ! i)
     \<and> 0 \<le> Shortfall (df r) ! i
     \<and> Target_Income (df r) ! i - Total_Fixed_Income (df r) ! i \<le> Shortfall (df r) ! i"
proof -
  have d: "df r = projection_frame inp"
    by (rule compute_projection_fields(1)[OF assms(1)])
  have i: "i < nat (retirement_years inp)"
    using assms(2) by (simp add: d frame_lengths)
  have s: "Shortfall (df r) ! i
           = max 0 (Target_Income (df r) ! i - Total_Fixed_Income (df r) ! i)"
    using i by (simp add: d frame_Shortfall_nth)
  then show ?thesis by simp
qed

theorem shortfall_floor_witness:
  "compute_projection (scenario 2027 59 1 50) = Inr result_growing
   \<and> 2 < length (Shortfall (df result_growing))
   \<and> Target_Income (df result_growing) ! 2 - Total_Fixed_Income (df result_growing) ! 2
       = - 480
   \<and> Shortfall (df result_growing) ! 2 = 0
   \<and> Shortfall (df result_growing) ! 1 = 760"
proof -
  have len: "2 < length (Shortfall (df result_growing))"
    "1 < length (Shortfall (df result_growing))"
    by (simp_all add: result_growing_def frame_growing_def)
  have gap:
    "Target_Income (df result_growing) ! 2 - Total_Fixed_Income (df result_growing) ! 2
       = - 480"
    "Target_Income (df result_growing) ! Suc 0
       - Total_Fixed_Income (df result_growing) ! Suc 0 = 760"
    by (simp_all add: result_growing_def frame_growing_def)
  show ?thesis
    using shortfall_floor[OF run_growing len(1)] shortfall_floor[OF run_growing len(2)]
      len run_growing
    by (simp add: gap)
qed

subsection \<open>C6: present value of the shortfall\<close>

text \<open>
  C6. On every row \<open>i\<close> of every result, \<open>PV_of_Shortfall\<close> is the row's
  \<open>Shortfall\<close> divided by \<open>(1 + investment_return) ^ i\<close> (the exponent
  \<open>Ret_Year_Index\<close> being \<open>i\<close>), so row \<open>0\<close> is undiscounted; and
  \<open>total_needed_at_retirement\<close> is the sum of \<open>PV_of_Shortfall\<close> over all rows.
\<close>

theorem present_value_of_shortfall:
  assumes "compute_projection inp = Inr r"
  shows "(\<forall>i < length (PV_of_Shortfall (df r)).
           Ret_Year_Index (df r) ! i = int i
           \<and> PV_of_Shortfall (df r) ! i
               = Shortfall (df r) ! i / (1 + investment_return inp) ^ i)
     \<and> (0 < length (PV_of_Shortfall (df r)) \<longrightarrow>
           PV_of_Shortfall (df r) ! 0 = Shortfall (df r) ! 0)
     \<and> total_needed_at_retirement r = sum_list (PV_of_Shortfall (df r))
     \<and> total_needed_at_retirement r
           = (\<Sum>i < length (PV_of_Shortfall (df r)). PV_of_Shortfall (df r) ! i)"
proof -
  have d: "df r = projection_frame inp"
    by (rule compute_projection_fields(1)[OF assms])
  have rows: "\<forall>i < length (PV_of_Shortfall (df r)).
           Ret_Year_Index (df r) ! i = int i
           \<and> PV_of_Shortfall (df r) ! i
               = Shortfall (df r) ! i / (1 + investment_return inp) ^ i"
    by (simp add: d frame_lengths frame_PV_nth frame_Index_nth py_pow_int)
  have first: "0 < length (PV_of_Shortfall (df r)) \<longrightarrow>
           PV_of_Shortfall (df r) ! 0 = Shortfall (df r) ! 0"
    using rows by auto
  have t: "total_needed_at_retirement r = sum_list (PV_of_Shortfall (df r))"
    using compute_projection_fields(2)[OF assms] by (simp add: d)
  have "total_needed_at_retirement r
           = (\<Sum>i < length (PV_of_Shortfall (df r)). PV_of_Shortfall (df r) ! i)"
    by (simp add: t sum_list_sum_nth atLeast0LessThan)
  with rows first t show ?thesis by blast
qed

theorem present_value_of_shortfall_witness:
  "compute_projection (scenario 2027 59 1 50) = Inr result_growing
   \<and> 1 < length (PV_of_Shortfall (df result_growing))
   \<and> PV_of_Shortfall (df result_growing) ! 1 = 760 / (1 + 1) ^ 1
   \<and> PV_of_Shortfall (df result_growing) ! 0 = 390
   \<and> total_needed_at_retirement result_growing = 390 + 380 + 0"
proof -
  have len: "1 < length (PV_of_Shortfall (df result_growing))"
    "0 < length (PV_of_Shortfall (df result_growing))"
    by (simp_all add: result_growing_def frame_growing_def)
  have s: "Shortfall (df result_growing) ! Suc 0 = 760"
    "Shortfall (df result_growing) ! 0 = 390"
    "sum_list (PV_of_Shortfall (df result_growing)) = 390 + 380 + 0"
    by (simp_all add: result_growing_def frame_growing_def)
  note pv = present_value_of_shortfall[OF run_growing]
  from pv len(1)
  have "PV_of_Shortfall (df result_growing) ! 1
          = Shortfall (df result_growing) ! 1
              / (1 + investment_return (scenario 2027 59 1 50)) ^ 1"
    by blast
  then show ?thesis
    using pv len run_growing
    by (simp add: s scenario_def)
qed

subsection \<open>C7: the savings horizon\<close>



subsection \<open>C8: the annual savings needed\<close>



subsection \<open>C9: target income from row to row\<close>

text \<open>
  C9, as amended. For every input with \<open>inflation > 0\<close> and
  \<open>base_income_need > 0\<close>, \<open>Target_Income\<close> is strictly increasing from each row
  of the result to the next.
\<close>

theorem target_income_strictly_increasing:
  assumes "compute_projection inp = Inr r"
    and "0 < inflation inp" and "0 < base_income_need inp"
    and "Suc i < length (Target_Income (df r))"
  shows "Target_Income (df r) ! i < Target_Income (df r) ! Suc i"
proof -
  have d: "df r = projection_frame inp"
    by (rule compute_projection_fields(1)[OF assms(1)])
  have s: "Suc i < nat (retirement_years inp)" and i: "i < nat (retirement_years inp)"
    using assms(4) by (simp_all add: d frame_lengths)
  let ?k = "retirement_start_year inp - current_year inp + int i"
  have "py_pow (1 + inflation inp) ?k < py_pow (1 + inflation inp) (?k + 1)"
    using assms(2) by (simp add: py_pow_strict_increasing)
  then have "base_income_need inp * py_pow (1 + inflation inp) ?k
               < base_income_need inp * py_pow (1 + inflation inp) (?k + 1)"
    using assms(3) by simp
  then show ?thesis
    using s i by (simp add: d frame_Target_nth frame_Index_nth algebra_simps)
qed

theorem target_income_strictly_increasing_witness:
  "compute_projection (scenario 2027 59 1 50) = Inr result_growing
   \<and> 0 < inflation (scenario 2027 59 1 50)
   \<and> 0 < base_income_need (scenario 2027 59 1 50)
   \<and> Suc 1 < length (Target_Income (df result_growing))
   \<and> Target_Income (df result_growing) ! 1 < Target_Income (df result_growing) ! Suc 1"
proof -
  have h: "0 < inflation (scenario 2027 59 1 50)" "0 < base_income_need (scenario 2027 59 1 50)"
    by (simp_all add: scenario_def)
  have len: "Suc 1 < length (Target_Income (df result_growing))"
    by (simp add: result_growing_def frame_growing_def)
  from target_income_strictly_increasing[OF run_growing h len] h len run_growing
  show ?thesis by blast
qed

text \<open>
  C9 as stated fails: with \<open>inflation > 0\<close> and \<open>base_income_need = 0\<close> every
  target income is \<open>0\<close>, so the column is not strictly increasing.
\<close>

theorem zero_income_need_target_not_increasing:
  "0 < inflation ((scenario 2027 59 1 50)\<lparr>base_income_need := 0\<rparr>)
   \<and> compute_projection ((scenario 2027 59 1 50)\<lparr>base_income_need := 0\<rparr>) = Inr result_no_need
   \<and> Suc 0 < length (Target_Income (df result_no_need))
   \<and> \<not> Target_Income (df result_no_need) ! 0 < Target_Income (df result_no_need) ! Suc 0"
  by (simp add: run_no_need) (simp add: scenario_def result_no_need_def frame_growing_def)

subsection \<open>C10: fixed income from row to row\<close>



end
